theory Spec2Isabelle
  imports Main
begin

section \<open>Strings of the path engine\<close>

text \<open>
  The content script of the xpath-extractor extension works on XPath strings.
  JavaScript strings are modelled as \<^typ>\<open>string\<close>; a JavaScript number that
  holds a sibling index is modelled as a \<^typ>\<open>nat\<close> (exact below \<open>2 ^ 53\<close>, which
  no sibling count of a document reaches).
\<close>

text \<open>\<^verbatim>\<open>String.prototype.split\<close> with a one-character separator.\<close>

fun split :: "char \<Rightarrow> string \<Rightarrow> string list" where
  "split c [] = [[]]"
| "split c (x # xs) =
     (if x = c then [] # split c xs
      else (case split c xs of [] \<Rightarrow> [[x]] | w # ws \<Rightarrow> (x # w) # ws))"

text \<open>\<^verbatim>\<open>Array.prototype.join\<close>.\<close>

fun join :: "string \<Rightarrow> string list \<Rightarrow> string" where
  "join sep [] = []"
| "join sep [s] = s"
| "join sep (s # t # ss) = s @ sep @ join sep (t # ss)"

text \<open>Decimal rendering of an index inside a template string.\<close>

definition digitChar :: "nat \<Rightarrow> char" where
  "digitChar d = ''0123456789'' ! d"

fun showNat :: "nat \<Rightarrow> string" where
  "showNat n = (if n < 10 then [digitChar n] else showNat (n div 10) @ [digitChar (n mod 10)])"

declare showNat.simps [simp del]

definition isDigit :: "char \<Rightarrow> bool" where
  "isDigit c = (c \<in> set ''0123456789'')"

definition digitVal :: "char \<Rightarrow> nat" where
  "digitVal c = of_char c - 48"

text \<open>\<^verbatim>\<open>parseInt(ds, 10)\<close> on a string of decimal digits.\<close>

definition parseInt :: "string \<Rightarrow> nat" where
  "parseInt ds = foldl (\<lambda>a c. 10 * a + digitVal c) 0 ds"

text \<open>The character class \<^verbatim>\<open>[a-zA-Z0-9_-]\<close>.\<close>

definition isTagChar :: "char \<Rightarrow> bool" where
  "isTagChar c =
     (c \<in> set ''abcdefghijklmnopqrstuvwxyzABCDEFGHIJKLMNOPQRSTUVWXYZ0123456789_-'')"

section \<open>parseXPathToSegments and parseSegment\<close>

text \<open>
  \<^verbatim>\<open>xpath.replace(/^\/+/, "").split("/").filter((segment) => segment.length > 0)\<close>
\<close>

definition parseXPathToSegments :: "string \<Rightarrow> string list" where
  "parseXPathToSegments xpath =
     filter (\<lambda>segment. length segment > 0)
       (split CHR ''/'' (dropWhile (\<lambda>c. c = CHR ''/'') xpath))"

text \<open>
  The result object of \<^verbatim>\<open>parseSegment\<close>: \<^verbatim>\<open>{ tag, index, id }\<close>, where
  \<^verbatim>\<open>index\<close> is a number or \<^verbatim>\<open>null\<close> and \<^verbatim>\<open>id\<close> is present only for an
  id reference.
\<close>

record segment =
  tag :: string
  index :: "nat option"
  idref :: "string option"

text \<open>
  \<^verbatim>\<open>/^([a-zA-Z0-9_-]+)(?:\[(\d+)\])?$/\<close>: the first group can only be the
  longest run of tag characters, because the character after it has to be
  \<^verbatim>\<open>[\<close> or the end of the input. The result is the pair of the two groups.
\<close>

definition matchSegment :: "string \<Rightarrow> (string \<times> string option) option" where
  "matchSegment s =
     (let t = takeWhile isTagChar s; r = dropWhile isTagChar s in
      if t = [] then None
      else if r = [] then Some (t, None)
      else if hd r = CHR ''['' \<and> tl r \<noteq> [] \<and> last (tl r) = CHR '']''
              \<and> butlast (tl r) \<noteq> [] \<and> list_all isDigit (butlast (tl r))
           then Some (t, Some (butlast (tl r)))
           else None)"

text \<open>
  \<^verbatim>\<open>/^\*\[@id="([^"]+)"\]$/\<close>: the group is the run up to the first double
  quote, which must be followed by \<^verbatim>\<open>"]\<close> and the end of the input.
\<close>

definition idPrefix :: string where
  "idPrefix = ''*[@id='' @ [CHR 0x22]"

definition matchIdRef :: "string \<Rightarrow> string option" where
  "matchIdRef s =
     (if take (length idPrefix) s = idPrefix
      then (let rest = drop (length idPrefix) s;
                g = takeWhile (\<lambda>c. c \<noteq> CHR 0x22) rest;
                q = dropWhile (\<lambda>c. c \<noteq> CHR 0x22) rest
            in if g \<noteq> [] \<and> q = [CHR 0x22, CHR '']''] then Some g else None)
      else None)"

definition parseSegment :: "string \<Rightarrow> segment" where
  "parseSegment s =
     (case matchSegment s of
        Some (t, g) \<Rightarrow>
          \<lparr>tag = t, index = (case g of Some ds \<Rightarrow> Some (parseInt ds) | None \<Rightarrow> None),
           idref = None\<rparr>
      | None \<Rightarrow>
          (case matchIdRef s of
             Some i \<Rightarrow> \<lparr>tag = ''*'', index = None, idref = Some i\<rparr>
           | None \<Rightarrow> \<lparr>tag = s, index = None, idref = None\<rparr>))"

section \<open>compareXPaths\<close>

text \<open>
  The result object \<^verbatim>\<open>{ pattern, variableIndices, isValid }\<close>. Every return with
  \<^verbatim>\<open>isValid: false\<close> carries \<^verbatim>\<open>pattern: null\<close> and no indices and is modelled
  as \<^term>\<open>None\<close>.
\<close>

record comparison =
  pattern :: string
  variableIndices :: "nat list"

text \<open>
  The loop of \<^verbatim>\<open>compareXPaths\<close> from position \<open>i\<close> on, with the two arrays it
  fills. The two segment arrays have the same length when the loop starts; the
  third equation is never reached from \<^verbatim>\<open>compareXPaths\<close>.
\<close>

fun compareLoop ::
  "nat \<Rightarrow> string list \<Rightarrow> string list \<Rightarrow> string list \<Rightarrow> nat list
    \<Rightarrow> (string list \<times> nat list) option" where
  "compareLoop i [] segments2 patternSegments varIndices =
     Some (patternSegments, varIndices)"
| "compareLoop i (s1 # segments1) (s2 # segments2) patternSegments varIndices =
     (let parsed1 = parseSegment s1; parsed2 = parseSegment s2 in
      if tag parsed1 \<noteq> tag parsed2 then None
      else if index parsed1 \<noteq> index parsed2 \<and> index parsed1 \<noteq> None \<and> index parsed2 \<noteq> None
      then compareLoop (Suc i) segments1 segments2
             (patternSegments @ [tag parsed1 @ ''[*]'']) (varIndices @ [i])
      else if index parsed1 \<noteq> None
      then compareLoop (Suc i) segments1 segments2
             (patternSegments @ [tag parsed1 @ ''['' @ showNat (the (index parsed1)) @ '']''])
             varIndices
      else compareLoop (Suc i) segments1 segments2
             (patternSegments @ [tag parsed1]) varIndices)"
| "compareLoop i (s1 # segments1) [] patternSegments varIndices = None"

definition compareXPaths :: "string \<Rightarrow> string \<Rightarrow> comparison option" where
  "compareXPaths xpath1 xpath2 =
     (let segments1 = parseXPathToSegments xpath1;
          segments2 = parseXPathToSegments xpath2
      in if length segments1 \<noteq> length segments2 then None
         else (case compareLoop 0 segments1 segments2 [] [] of
                 None \<Rightarrow> None
               | Some (patternSegments, varIndices) \<Rightarrow>
                   if length varIndices = 0 then None
                   else Some \<lparr>pattern = ''/'' @ join ''/'' patternSegments,
                              variableIndices = varIndices\<rparr>))"

text \<open>
  What the comparison decides at one position, read from the two parsed segments:
  the indices differ and neither is \<^verbatim>\<open>null\<close>; the segment pushed for a fixed
  position; the segment pushed for a variable position.
\<close>

definition indicesDiffer :: "segment \<Rightarrow> segment \<Rightarrow> bool" where
  "indicesDiffer p1 p2 = (index p1 \<noteq> None \<and> index p2 \<noteq> None \<and> index p1 \<noteq> index p2)"

definition literalSegment :: "segment \<Rightarrow> string" where
  "literalSegment p =
     (case index p of None \<Rightarrow> tag p | Some n \<Rightarrow> tag p @ ''['' @ showNat n @ '']'')"

definition wildcardSegment :: "segment \<Rightarrow> string" where
  "wildcardSegment p = tag p @ ''[*]''"

text \<open>The three shapes of input that the two regular expressions accept.\<close>

definition bareTagForm :: "string \<Rightarrow> bool" where
  "bareTagForm s = (s \<noteq> [] \<and> list_all isTagChar s)"

definition bracketedIndex :: "string \<Rightarrow> bool" where
  "bracketedIndex r =
     (3 \<le> length r \<and> hd r = CHR ''['' \<and> last r = CHR '']'' \<and> list_all isDigit (butlast (tl r)))"

definition indexedTagForm :: "string \<Rightarrow> bool" where
  "indexedTagForm s =
     list_ex (\<lambda>n. list_all isTagChar (take n s) \<and> bracketedIndex (drop n s)) [1..<length s]"

definition idRefForm :: "string \<Rightarrow> bool" where
  "idRefForm s =
     (length idPrefix + 3 \<le> length s \<and> take (length idPrefix) s = idPrefix
      \<and> drop (length s - 2) s = [CHR 0x22, CHR '']'']
      \<and> CHR 0x22 \<notin> set (take (length s - length idPrefix - 2) (drop (length idPrefix) s)))"

section \<open>detect2DPattern\<close>

text \<open>
  The result object \<^verbatim>\<open>{ pattern, variableIndices, isValid, is2D }\<close>; again a return
  with \<^verbatim>\<open>isValid: false\<close> is \<^term>\<open>None\<close>.
\<close>

record detection = comparison +
  is2D :: bool

text \<open>
  The loop of \<^verbatim>\<open>detect2DPattern\<close> from position \<open>i\<close> on, with
  \<^verbatim>\<open>resultSegments\<close>, \<^verbatim>\<open>resultVariableIndices\<close> and \<^verbatim>\<open>newVariableFound\<close>.
\<close>

fun detectLoop ::
  "nat \<Rightarrow> string list \<Rightarrow> string list \<Rightarrow> nat list \<Rightarrow> string list \<Rightarrow> nat list \<Rightarrow> bool
    \<Rightarrow> (string list \<times> nat list \<times> bool) option" where
  "detectLoop i [] newSegments existingVariableIndices resultSegments resultVariableIndices
     newVariableFound = Some (resultSegments, resultVariableIndices, newVariableFound)"
| "detectLoop i (p # patternSegments) (n # newSegments) existingVariableIndices resultSegments
     resultVariableIndices newVariableFound =
     (let parsed1 = parseSegment p; parsed2 = parseSegment n in
      if tag parsed1 \<noteq> tag parsed2 then None
      else if i \<in> set existingVariableIndices
      then detectLoop (Suc i) patternSegments newSegments existingVariableIndices
             (resultSegments @ [tag parsed1 @ ''[*]'']) resultVariableIndices newVariableFound
      else if index parsed1 \<noteq> None \<and> index parsed2 \<noteq> None \<and> index parsed1 \<noteq> index parsed2
      then detectLoop (Suc i) patternSegments newSegments existingVariableIndices
             (resultSegments @ [tag parsed1 @ ''[*]'']) (resultVariableIndices @ [i]) True
      else if index parsed1 \<noteq> None
      then detectLoop (Suc i) patternSegments newSegments existingVariableIndices
             (resultSegments @ [tag parsed1 @ ''['' @ showNat (the (index parsed1)) @ '']''])
             resultVariableIndices newVariableFound
      else detectLoop (Suc i) patternSegments newSegments existingVariableIndices
             (resultSegments @ [tag parsed1]) resultVariableIndices newVariableFound)"
| "detectLoop i (p # patternSegments) [] existingVariableIndices resultSegments
     resultVariableIndices newVariableFound = None"

definition detect2DPattern :: "string \<Rightarrow> nat list \<Rightarrow> string \<Rightarrow> detection option" where
  "detect2DPattern existingPattern existingVariableIndices newXPath =
     (let patternSegments = parseXPathToSegments existingPattern;
          newSegments = parseXPathToSegments newXPath
      in if length patternSegments \<noteq> length newSegments then None
         else (case detectLoop 0 patternSegments newSegments existingVariableIndices []
                      existingVariableIndices False of
                 None \<Rightarrow> None
               | Some (resultSegments, resultVariableIndices, newVariableFound) \<Rightarrow>
                   if \<not> newVariableFound
                   then Some \<lparr>pattern = existingPattern,
                              variableIndices = existingVariableIndices,
                              is2D = (length resultVariableIndices \<ge> 2)\<rparr>
                   else Some \<lparr>pattern = ''/'' @ join ''/'' resultSegments,
                              variableIndices = resultVariableIndices,
                              is2D = (length resultVariableIndices \<ge> 2)\<rparr>))"

section \<open>The document\<close>

text \<open>
  The host's document tree, as far as the script reads it: an element has a tag
  name, an \<^verbatim>\<open>id\<close> attribute (empty when absent) and its element children in
  order.
\<close>

datatype element = Element (tagName: string) (idAttr: string) (children: "element list")

text \<open>
  The script compares nodes by reference. A node is modelled by the place it has:
  the value \<^verbatim>\<open>null\<close>, the document itself, or an element given by the top of its
  parent chain (the document's root element, or an element with no parent) and
  the child positions that lead from there to the element, the element's own
  position first.
\<close>

datatype base = InDocument | Orphan element

datatype node = Null | Document | Node base "nat list"

text \<open>
  The document object: its root element, the text content of each node, and the
  method \<^verbatim>\<open>document.evaluate\<close> as the script calls it (the snapshot of all
  results in document order, and the empty list when the evaluator raises, as the
  script's \<^verbatim>\<open>try\<close>/\<^verbatim>\<open>catch\<close> makes it).
\<close>

record document =
  documentElement :: element
  textContent :: "node \<Rightarrow> string"
  evaluate :: "string \<Rightarrow> node list"

fun elementAt :: "element \<Rightarrow> nat list \<Rightarrow> element option" where
  "elementAt r [] = Some r"
| "elementAt r (i # p) =
     (case elementAt r p of
        None \<Rightarrow> None
      | Some e \<Rightarrow> if i < length (children e) then Some (children e ! i) else None)"

definition rootOf :: "document \<Rightarrow> base \<Rightarrow> element" where
  "rootOf d b = (case b of InDocument \<Rightarrow> documentElement d | Orphan t \<Rightarrow> t)"

fun nodeElement :: "document \<Rightarrow> node \<Rightarrow> element option" where
  "nodeElement d (Node b p) = elementAt (rootOf d b) p"
| "nodeElement d n = None"

text \<open>\<^verbatim>\<open>String.prototype.toLowerCase\<close> on the letters of a tag name.\<close>

definition lowerChar :: "char \<Rightarrow> char" where
  "lowerChar c =
     (case map_of (zip ''ABCDEFGHIJKLMNOPQRSTUVWXYZ'' ''abcdefghijklmnopqrstuvwxyz'') c of
        Some l \<Rightarrow> l
      | None \<Rightarrow> c)"

definition toLowerCase :: "string \<Rightarrow> string" where
  "toLowerCase s = map lowerChar s"

text \<open>\<^verbatim>\<open>node.children\<close>: the element children, in order.\<close>

fun childNodes :: "document \<Rightarrow> node \<Rightarrow> node list" where
  "childNodes d Document = [Node InDocument []]"
| "childNodes d (Node b p) =
     (case elementAt (rootOf d b) p of
        None \<Rightarrow> []
      | Some e \<Rightarrow> map (\<lambda>i. Node b (i # p)) [0..<length (children e)])"
| "childNodes d Null = []"

definition lowerTag :: "document \<Rightarrow> node \<Rightarrow> string" where
  "lowerTag d n = (case nodeElement d n of None \<Rightarrow> [] | Some e \<Rightarrow> toLowerCase (tagName e))"

fun firstIndex :: "('a \<Rightarrow> bool) \<Rightarrow> 'a list \<Rightarrow> nat option" where
  "firstIndex P [] = None"
| "firstIndex P (x # xs) = (if P x then Some 0 else map_option Suc (firstIndex P xs))"

text \<open>
  \<^verbatim>\<open>document.body\<close>: the first child of the \<^verbatim>\<open>html\<close> root element that is a
  \<^verbatim>\<open>body\<close> or a \<^verbatim>\<open>frameset\<close> element, \<^verbatim>\<open>null\<close> when there is none.
\<close>

definition body :: "document \<Rightarrow> node" where
  "body d =
     (if toLowerCase (tagName (documentElement d)) = ''html''
      then (case firstIndex (\<lambda>c. toLowerCase (tagName c) = ''body''
                                \<or> toLowerCase (tagName c) = ''frameset'')
                   (children (documentElement d)) of
              None \<Rightarrow> Null
            | Some i \<Rightarrow> Node InDocument [i])
      else Null)"

section \<open>generateXPath and generateAbsoluteXPath\<close>

text \<open>
  The index loop of both functions: one more than the number of siblings before
  position \<open>i\<close> that have the element's lower-case tag name.
\<close>

definition siblingIndex :: "element list \<Rightarrow> nat \<Rightarrow> nat" where
  "siblingIndex siblings i =
     1 + length (filter (\<lambda>sibling. tagName sibling \<noteq> []
                          \<and> toLowerCase (tagName sibling) = toLowerCase (tagName (siblings ! i)))
                   (take i siblings))"

text \<open>
  \<^verbatim>\<open>generateAbsoluteXPath\<close>. A node of the shape \<open>Node b (i # p)\<close> has a parent; the
  node \<open>Node InDocument []\<close> is \<^verbatim>\<open>document.documentElement\<close>; \<open>Node (Orphan t) []\<close>
  has no parent node. A position that names no element of the tree stands for no
  node, and the model gives it the empty string.
\<close>

function (sequential) generateAbsoluteXPath :: "document \<Rightarrow> node \<Rightarrow> string" where
  "generateAbsoluteXPath d Null = (if body d = Null then ''/html/body'' else [])"
| "generateAbsoluteXPath d Document = []"
| "generateAbsoluteXPath d (Node b []) = (if b = InDocument then ''/html'' else [])"
| "generateAbsoluteXPath d (Node b (i # p)) =
     (if Node b (i # p) = body d then ''/html/body''
      else (case elementAt (rootOf d b) p of
              None \<Rightarrow> []
            | Some parent \<Rightarrow>
                if i < length (children parent)
                then generateAbsoluteXPath d (Node b p) @ ''/''
                       @ toLowerCase (tagName (children parent ! i))
                       @ ''['' @ showNat (siblingIndex (children parent) i) @ '']''
                else []))"
  by pat_completeness auto
termination
  by (relation "measure (\<lambda>(d, n). case n of Node b p \<Rightarrow> length p | _ \<Rightarrow> 0)") auto

text \<open>
  \<^verbatim>\<open>generateXPath\<close>: the same walk, cut short at an element whose \<^verbatim>\<open>id\<close> does not
  start with a digit. The script applies it to elements only; the last equation
  closes the definition for the two other values.
\<close>

definition usableId :: "element \<Rightarrow> bool" where
  "usableId e = (idAttr e \<noteq> [] \<and> \<not> isDigit (hd (idAttr e)))"

definition idXPath :: "element \<Rightarrow> string" where
  "idXPath e = ''//*[@id='' @ [CHR 0x22] @ idAttr e @ [CHR 0x22] @ '']''"

function (sequential) generateXPath :: "document \<Rightarrow> node \<Rightarrow> string" where
  "generateXPath d (Node b []) =
     (if usableId (rootOf d b) then idXPath (rootOf d b)
      else if b = InDocument then ''/html'' else [])"
| "generateXPath d (Node b (i # p)) =
     (case elementAt (rootOf d b) p of
        None \<Rightarrow> []
      | Some parent \<Rightarrow>
          if i < length (children parent)
          then (if usableId (children parent ! i) then idXPath (children parent ! i)
                else if Node b (i # p) = body d then ''/html/body''
                else generateXPath d (Node b p) @ ''/''
                       @ toLowerCase (tagName (children parent ! i))
                       @ ''['' @ showNat (siblingIndex (children parent) i) @ '']'')
          else [])"
| "generateXPath d n = []"
  by pat_completeness auto
termination
  by (relation "measure (\<lambda>(d, n). case n of Node b p \<Rightarrow> length p | _ \<Rightarrow> 0)") auto

section \<open>findMatchingElements and collectElementsWithWildcard\<close>

text \<open>\<^verbatim>\<open>String.prototype.includes\<close> and \<^verbatim>\<open>String.prototype.replace\<close> with a string pattern
  (which replaces the first occurrence only).\<close>

fun stringIncludes :: "string \<Rightarrow> string \<Rightarrow> bool" where
  "stringIncludes [] sub = (sub = [])"
| "stringIncludes (c # cs) sub = (take (length sub) (c # cs) = sub \<or> stringIncludes cs sub)"

fun stringReplace :: "string \<Rightarrow> string \<Rightarrow> string \<Rightarrow> string" where
  "stringReplace sub new [] = (if sub = [] then new else [])"
| "stringReplace sub new (c # cs) =
     (if take (length sub) (c # cs) = sub then new @ drop (length sub) (c # cs)
      else c # stringReplace sub new cs)"

text \<open>\<^verbatim>\<open>child.tagName && child.tagName.toLowerCase() === parsed.tag\<close>.\<close>

definition hasTag :: "document \<Rightarrow> string \<Rightarrow> node \<Rightarrow> bool" where
  "hasTag d name child = (lowerTag d child \<noteq> [] \<and> lowerTag d child = name)"

text \<open>\<^verbatim>\<open>parsed.index || 1\<close>.\<close>

definition targetIndexOf :: "segment \<Rightarrow> nat" where
  "targetIndexOf parsed = (case index parsed of None \<Rightarrow> 1 | Some n \<Rightarrow> if n = 0 then 1 else n)"

text \<open>
  \<^verbatim>\<open>collectElementsWithWildcard(segments, segmentIndex, currentNode)\<close>, with the
  segments from \<^verbatim>\<open>segmentIndex\<close> on as the list argument. The result is \<^term>\<open>None\<close>
  when the call raises a \<^verbatim>\<open>TypeError\<close>, which happens only when it reads the
  children of \<^verbatim>\<open>null\<close>. In the branch of a fixed index, the loop stops at the
  child that brings the count of same-tag children to \<^verbatim>\<open>targetIndex\<close>.
\<close>

fun collectElementsWithWildcard :: "document \<Rightarrow> string list \<Rightarrow> node \<Rightarrow> node list option" where
  "collectElementsWithWildcard d [] currentNode =
     Some (if currentNode \<noteq> Document then [currentNode] else [])"
| "collectElementsWithWildcard d (segment # rest) currentNode =
     (let parsed = parseSegment (stringReplace ''[*]'' ''[1]'' segment);
          isWildcard = stringIncludes segment ''[*]''
      in if segment = ''html'' \<and> currentNode = Document
         then collectElementsWithWildcard d rest (Node InDocument [])
         else if segment = ''body'' \<and> currentNode = Node InDocument []
         then collectElementsWithWildcard d rest (body d)
         else if currentNode = Null then None
         else if isWildcard
         then map_option concat
                (those (map (\<lambda>child. collectElementsWithWildcard d rest child)
                          (filter (hasTag d (tag parsed))
                             (childNodes d currentNode))))
         else (let sameTag = filter (hasTag d (tag parsed))
                               (childNodes d currentNode)
               in if targetIndexOf parsed \<le> length sameTag
                  then collectElementsWithWildcard d rest (sameTag ! (targetIndexOf parsed - 1))
                  else Some []))"

definition findMatchingElements :: "document \<Rightarrow> string option \<Rightarrow> node list option" where
  "findMatchingElements d patternXPath =
     (case patternXPath of
        None \<Rightarrow> Some []
      | Some p \<Rightarrow>
          if p = [] then Some []
          else (let segments = parseXPathToSegments p;
                    wildcardIndices =
                      filter (\<lambda>i. stringIncludes (segments ! i) ''[*]'') [0..<length segments]
                in if length wildcardIndices = 0 then Some (evaluate d p)
                   else collectElementsWithWildcard d segments Document))"

section \<open>The selection state and updatePattern\<close>

text \<open>
  The value of the global \<^verbatim>\<open>detectedPattern\<close>. The script builds three shapes of
  object: \<^verbatim>\<open>{ type: "single", xpath, variableIndices: [] }\<close>,
  \<^verbatim>\<open>{ type: "1d" | "2d", xpath, variableIndices }\<close> and
  \<^verbatim>\<open>{ type: "multiple", xpath: null, variableIndices: [] }\<close>; \<^verbatim>\<open>null\<close> is
  \<^term>\<open>None\<close> of the option type.
\<close>

datatype patternType = OneD | TwoD

datatype detectedPattern = Single string | Generalized patternType string "nat list" | Multiple

text \<open>The globals of the content script.\<close>

record state =
  isSelectionModeActive :: bool
  selectedElements :: "(node \<times> string) list"
  detectedPattern :: "detectedPattern option"
  matchedElements :: "node list"

text \<open>
  How a function that assigns to the globals ends: it returns, or a
  \<^verbatim>\<open>TypeError\<close> leaves it; in both cases with the globals as they are then.
\<close>

datatype 'a completion = Normal 'a | Abrupt 'a

fun stateOf :: "'a completion \<Rightarrow> 'a" where
  "stateOf (Normal s) = s"
| "stateOf (Abrupt s) = s"

text \<open>\<^verbatim>\<open>matchedElements = findMatchingElements(xpath)\<close>.\<close>

definition assignMatched :: "document \<Rightarrow> state \<Rightarrow> string \<Rightarrow> state completion" where
  "assignMatched d s xpath =
     (case findMatchingElements d (Some xpath) of
        Some elements \<Rightarrow> Normal (s\<lparr>matchedElements := elements\<rparr>)
      | None \<Rightarrow> Abrupt s)"

definition typeOf :: "bool \<Rightarrow> patternType" where
  "typeOf twoD = (if twoD then TwoD else OneD)"

text \<open>
  The end of the branch for three or more selected elements: the newest path is
  compared with the current pattern, whose path and variable indices are the two
  last arguments.
\<close>

definition compareLatest :: "document \<Rightarrow> state \<Rightarrow> string \<Rightarrow> nat list \<Rightarrow> state completion" where
  "compareLatest d s currentXPath currentVariableIndices =
     (let absoluteXPaths = map (\<lambda>sel. generateAbsoluteXPath d (fst sel)) (selectedElements s);
          latestXPath = absoluteXPaths ! (length absoluteXPaths - 1)
      in case detect2DPattern currentXPath currentVariableIndices latestXPath of
           Some result2D \<Rightarrow>
             assignMatched d
               (s\<lparr>detectedPattern :=
                    Some (Generalized (typeOf (is2D result2D)) (pattern result2D)
                            (variableIndices result2D))\<rparr>)
               (pattern result2D)
         | None \<Rightarrow> assignMatched d s currentXPath)"

definition updatePattern :: "document \<Rightarrow> state \<Rightarrow> state completion" where
  "updatePattern d s =
     (if length (selectedElements s) = 0
      then Normal (s\<lparr>detectedPattern := None, matchedElements := []\<rparr>)
      else if length (selectedElements s) = 1
      then Normal (s\<lparr>detectedPattern := Some (Single (snd (selectedElements s ! 0))),
                      matchedElements := [fst (selectedElements s ! 0)]\<rparr>)
      else (let absoluteXPaths =
                  map (\<lambda>sel. generateAbsoluteXPath d (fst sel)) (selectedElements s)
            in if length (selectedElements s) = 2
               then (case compareXPaths (absoluteXPaths ! 0) (absoluteXPaths ! 1) of
                       Some result \<Rightarrow>
                         assignMatched d
                           (s\<lparr>detectedPattern :=
                                Some (Generalized (typeOf (length (variableIndices result) \<ge> 2))
                                        (pattern result) (variableIndices result))\<rparr>)
                           (pattern result)
                     | None \<Rightarrow>
                         Normal (s\<lparr>detectedPattern := Some Multiple,
                                    matchedElements := map fst (selectedElements s)\<rparr>))
               else (case detectedPattern s of
                       Some (Single xpath) \<Rightarrow> compareLatest d s xpath []
                     | Some (Generalized ty xpath varIndices) \<Rightarrow>
                         compareLatest d s xpath varIndices
                     | _ \<Rightarrow>
                         (case compareXPaths (absoluteXPaths ! 0) (absoluteXPaths ! 1) of
                            Some initialResult \<Rightarrow>
                              compareLatest d s (pattern initialResult)
                                (variableIndices initialResult)
                          | None \<Rightarrow>
                              Normal (s\<lparr>detectedPattern := Some Multiple,
                                         matchedElements := map fst (selectedElements s)\<rparr>)))))"

text \<open>
  The two mouse handlers, without the redrawing of the highlights and the message
  to the background script that follow the update of the pattern. The overlay
  elements that the script draws are not elements of the modelled tree, so the
  test that ignores a click on an overlay has no counterpart here.
\<close>

definition handleElementClick :: "document \<Rightarrow> node \<Rightarrow> state \<Rightarrow> state completion" where
  "handleElementClick d element s =
     (if \<not> isSelectionModeActive s then Normal s
      else if firstIndex (\<lambda>sel. fst sel = element) (selectedElements s) \<noteq> None then Normal s
      else updatePattern d
             (s\<lparr>selectedElements := selectedElements s @ [(element, generateXPath d element)]\<rparr>))"

definition handleElementDoubleClick :: "document \<Rightarrow> node \<Rightarrow> state \<Rightarrow> state completion" where
  "handleElementDoubleClick d element s =
     (if \<not> isSelectionModeActive s then Normal s
      else (case firstIndex (\<lambda>sel. fst sel = element) (selectedElements s) of
              None \<Rightarrow> Normal s
            | Some i \<Rightarrow>
                updatePattern d
                  (s\<lparr>selectedElements :=
                       take i (selectedElements s) @ drop (Suc i) (selectedElements s)\<rparr>)))"

text \<open>A run of clicks from a state, each handled to its end.\<close>

fun clicks :: "document \<Rightarrow> node list \<Rightarrow> state \<Rightarrow> state" where
  "clicks d [] s = s"
| "clicks d (element # elements) s = clicks d elements (stateOf (handleElementClick d element s))"

definition initialState :: state where
  "initialState = \<lparr>isSelectionModeActive = True, selectedElements = [],
                   detectedPattern = None, matchedElements = []\<rparr>"

section \<open>Extraction of the text\<close>



















section \<open>The host's XPath evaluator\<close>

text \<open>
  \<^verbatim>\<open>document.evaluate\<close> belongs to the browser, not to the script. It is modelled
  on the expressions that \<^verbatim>\<open>generateAbsoluteXPath\<close> builds: an absolute location
  path whose steps are an element name, or an element name with a position. A step
  selects, for each context node, the children with that name (compared in lower
  case, as in an HTML document), and with a position \<open>n\<close> only the \<open>n\<close>-th of
  them. Any other expression is outside this model, which gives it no result.
\<close>

definition stepNodes :: "document \<Rightarrow> string \<times> string option \<Rightarrow> node \<Rightarrow> node list" where
  "stepNodes d step context =
     (let named = filter (\<lambda>child. lowerTag d child = toLowerCase (fst step))
                    (childNodes d context)
      in case snd step of
           None \<Rightarrow> named
         | Some ds \<Rightarrow>
             if 1 \<le> parseInt ds \<and> parseInt ds \<le> length named
             then [named ! (parseInt ds - 1)] else [])"

fun locationPath :: "document \<Rightarrow> (string \<times> string option) list \<Rightarrow> node list \<Rightarrow> node list" where
  "locationPath d [] context = context"
| "locationPath d (step # steps) context =
     locationPath d steps (concat (map (stepNodes d step) context))"

definition xpathEvaluate :: "document \<Rightarrow> string \<Rightarrow> node list" where
  "xpathEvaluate d expr =
     (case expr of
        [] \<Rightarrow> []
      | c # rest \<Rightarrow>
          if c = CHR ''/'' \<and> list_all (\<lambda>step. matchSegment step \<noteq> None) (split CHR ''/'' rest)
          then locationPath d (map (\<lambda>step. the (matchSegment step)) (split CHR ''/'' rest))
                 [Document]
          else [])"

text \<open>The document with this evaluator as its \<^verbatim>\<open>evaluate\<close> method.\<close>

definition withXPath :: "document \<Rightarrow> document" where
  "withXPath d = d\<lparr>evaluate := xpathEvaluate d\<rparr>"

section \<open>Notions used in the statements\<close>




text \<open>
  The pattern that a sequence of clicks on the given nodes builds from the empty
  selection: the pattern recomputed from scratch over these nodes.
\<close>

definition fromScratch :: "document \<Rightarrow> node list \<Rightarrow> detectedPattern option" where
  "fromScratch d nodes = detectedPattern (clicks d nodes initialState)"





text \<open>The absolute path of the element selected last.\<close>

definition latestXPath :: "document \<Rightarrow> state \<Rightarrow> string" where
  "latestXPath d s = generateAbsoluteXPath d (fst (last (selectedElements s)))"

text \<open>The pattern that \<^verbatim>\<open>updatePattern\<close> assigns for exactly two selected elements.\<close>

definition pairPattern :: "document \<Rightarrow> node \<Rightarrow> node \<Rightarrow> detectedPattern" where
  "pairPattern d a b =
     (case compareXPaths (generateAbsoluteXPath d a) (generateAbsoluteXPath d b) of
        Some r \<Rightarrow>
          Generalized (typeOf (2 \<le> length (variableIndices r))) (pattern r) (variableIndices r)
      | None \<Rightarrow> Multiple)"

section \<open>Example documents\<close>

definition exampleTree :: element where
  "exampleTree =
     Element ''HTML'' []
       [Element ''HEAD'' [] [],
        Element ''BODY'' []
          [Element ''UL'' [] [Element ''LI'' [] [], Element ''LI'' [] []],
           Element ''DIV'' ''x'' [],
           Element ''UL'' []
             [Element ''LI'' [] [], Element ''LI'' [] [], Element ''LI'' [] [],
              Element ''LI'' [] []],
           Element ''OL'' [] [Element ''LI'' [] []]]]"

text \<open>The text of each element of the example is the list of its positions, as digits.\<close>

definition exampleDocument :: document where
  "exampleDocument =
     withXPath \<lparr>documentElement = exampleTree,
                textContent = (\<lambda>n. case n of Node b p \<Rightarrow> map digitChar (rev p) | _ \<Rightarrow> []),
                evaluate = (\<lambda>e. [])\<rparr>"


text \<open>Four list items of the example document: one of the first list, three of the second.\<close>

definition itemA :: node where "itemA = Node InDocument [0, 0, 1]"
definition itemB :: node where "itemB = Node InDocument [1, 2, 1]"
definition itemC :: node where "itemC = Node InDocument [2, 2, 1]"
definition itemD :: node where "itemD = Node InDocument [3, 2, 1]"


text \<open>The item of the ordered list, and an element that has no parent.\<close>

definition itemO :: node where "itemO = Node InDocument [0, 3, 1]"

text \<open>
  The state in \<^verbatim>\<open>handleElementClick\<close> after two items of the first list were
  selected and the item of the ordered list has been pushed, before
  \<^verbatim>\<open>updatePattern\<close> runs.
\<close>

definition thirdClickState :: state where
  "thirdClickState =
     (let s = clicks exampleDocument [itemA, Node InDocument [1, 0, 1]] initialState
      in s\<lparr>selectedElements := selectedElements s @ [(itemO, generateXPath exampleDocument itemO)]\<rparr>)"


text \<open>The state after clicks on three items.\<close>

definition threeItemsState :: state where
  "threeItemsState = clicks exampleDocument [itemA, itemB, itemC] initialState"


section \<open>Evaluation of the string functions\<close>

lemmas string_eval =
  parseXPathToSegments_def parseSegment_def matchSegment_def matchIdRef_def isTagChar_def
  isDigit_def parseInt_def digitVal_def idPrefix_def showNat.simps digitChar_def Let_def
  indicesDiffer_def wildcardSegment_def literalSegment_def upt_conv_Cons

section \<open>The comparison of two paths\<close>

lemma upt0_Suc_map: "map f [0..<Suc n] = f 0 # map (\<lambda>k. f (Suc k)) [0..<n]"
  by (simp add: upt_conv_Cons map_Suc_upt[symmetric] del: upt_Suc)

lemma upt0_Suc_filter:
  "filter P [0..<Suc n] = (if P 0 then [0] else []) @ map Suc (filter (\<lambda>k. P (Suc k)) [0..<n])"
  by (simp add: upt_conv_Cons map_Suc_upt[symmetric] filter_map comp_def del: upt_Suc)

lemma compareLoop_char:
  "length a = length b \<Longrightarrow>
   compareLoop i a b ps vs =
     (if \<forall>k<length a. tag (parseSegment (a ! k)) = tag (parseSegment (b ! k))
      then Some (ps @ map (\<lambda>k. if indicesDiffer (parseSegment (a ! k)) (parseSegment (b ! k))
                                then wildcardSegment (parseSegment (a ! k))
                                else literalSegment (parseSegment (a ! k))) [0..<length a],
                 vs @ map (\<lambda>k. i + k)
                        (filter (\<lambda>k. indicesDiffer (parseSegment (a ! k)) (parseSegment (b ! k)))
                           [0..<length a]))
      else None)"
proof (induction a b arbitrary: i ps vs rule: list_induct2)
  case Nil
  then show ?case by simp
next
  case (Cons x xs y ys)
  show ?case
    apply (subst compareLoop.simps)
    apply (simp only: Let_def Cons.IH length_Cons upt0_Suc_map upt0_Suc_filter)
    apply (auto simp: indicesDiffer_def wildcardSegment_def literalSegment_def All_less_Suc2
        comp_def split: option.splits)
    done
qed

lemma compareXPaths_char:
  "compareXPaths xpath1 xpath2 =
     (let s1 = map parseSegment (parseXPathToSegments xpath1);
          s2 = map parseSegment (parseXPathToSegments xpath2);
          w = filter (\<lambda>k. indicesDiffer (s1 ! k) (s2 ! k)) [0..<length s1]
      in if map tag s1 = map tag s2 \<and> w \<noteq> []
         then Some \<lparr>pattern = ''/'' @ join ''/''
                       (map2 (\<lambda>p q. if indicesDiffer p q then wildcardSegment p
                                     else literalSegment p) s1 s2),
                    variableIndices = w\<rparr>
         else None)"
proof (cases "length (parseXPathToSegments xpath1) = length (parseXPathToSegments xpath2)")
  case False
  then have "map tag (map parseSegment (parseXPathToSegments xpath1))
           \<noteq> map tag (map parseSegment (parseXPathToSegments xpath2))"
    by (metis length_map)
  with False show ?thesis by (simp add: compareXPaths_def Let_def)
next
  case True
  define a where "a = parseXPathToSegments xpath1"
  define b where "b = parseXPathToSegments xpath2"
  have len: "length a = length b" using True by (simp add: a_def b_def)
  have tags: "(map tag (map parseSegment a) = map tag (map parseSegment b))
            = (\<forall>k<length a. tag (parseSegment (a ! k)) = tag (parseSegment (b ! k)))"
    using len by (auto simp: list_eq_iff_nth_eq)
  have f: "filter (\<lambda>k. indicesDiffer (map parseSegment a ! k) (map parseSegment b ! k))
             [0..<length a]
         = filter (\<lambda>k. indicesDiffer (parseSegment (a ! k)) (parseSegment (b ! k)))
             [0..<length a]"
    using len by (intro filter_cong) auto
  have g: "map (\<lambda>k. if indicesDiffer (parseSegment (a ! k)) (parseSegment (b ! k))
                     then wildcardSegment (parseSegment (a ! k))
                     else literalSegment (parseSegment (a ! k))) [0..<length a]
         = map2 (\<lambda>p q. if indicesDiffer p q then wildcardSegment p else literalSegment p)
             (map parseSegment a) (map parseSegment b)"
    using len by (intro nth_equalityI) auto
  have L: "compareLoop 0 a b [] [] =
      (if map tag (map parseSegment a) = map tag (map parseSegment b)
       then Some (map2 (\<lambda>p q. if indicesDiffer p q then wildcardSegment p else literalSegment p)
                    (map parseSegment a) (map parseSegment b),
                  filter (\<lambda>k. indicesDiffer (map parseSegment a ! k) (map parseSegment b ! k))
                    [0..<length a])
       else None)"
  proof -
    have z: "map ((+) (0::nat)) xs = xs" for xs by (induction xs) auto
    show ?thesis unfolding compareLoop_char[OF len] tags f g by (simp add: z)
  qed
  show ?thesis
    unfolding compareXPaths_def a_def[symmetric] b_def[symmetric] Let_def L
    using len by (simp del: map_map)
qed



lemma compareXPaths_self: "compareXPaths xpath xpath = None"
  unfolding compareXPaths_char by (simp add: Let_def indicesDiffer_def)

text \<open>
  Claim C10. At a position where the tags agree and exactly one of the two indices
  is \<^verbatim>\<open>null\<close>, the comparison does not stop and does not record a variable
  position: when the result is valid the position is not among the variable
  indices and the pattern holds the first path's segment there as a fixed literal
  (with its index, if it has one); when the result is invalid, the reason is a tag
  that differs somewhere or the absence of any variable position.
\<close>

theorem compareXPaths_one_null_index:
  assumes "length (parseXPathToSegments xpath1) = length (parseXPathToSegments xpath2)"
    and "k < length (parseXPathToSegments xpath1)"
    and "tag (parseSegment (parseXPathToSegments xpath1 ! k))
       = tag (parseSegment (parseXPathToSegments xpath2 ! k))"
    and "(index (parseSegment (parseXPathToSegments xpath1 ! k)) = None)
       \<noteq> (index (parseSegment (parseXPathToSegments xpath2 ! k)) = None)"
  shows "case compareXPaths xpath1 xpath2 of
           None \<Rightarrow>
             map (tag \<circ> parseSegment) (parseXPathToSegments xpath1)
               \<noteq> map (tag \<circ> parseSegment) (parseXPathToSegments xpath2)
             \<or> (\<forall>j<length (parseXPathToSegments xpath1).
                  \<not> indicesDiffer (parseSegment (parseXPathToSegments xpath1 ! j))
                       (parseSegment (parseXPathToSegments xpath2 ! j)))
         | Some r \<Rightarrow>
             k \<notin> set (variableIndices r)
             \<and> (\<exists>segs. pattern r = ''/'' @ join ''/'' segs
                  \<and> length segs = length (parseXPathToSegments xpath1)
                  \<and> segs ! k = literalSegment (parseSegment (parseXPathToSegments xpath1 ! k)))"
proof -
  define a where "a = parseXPathToSegments xpath1"
  define b where "b = parseXPathToSegments xpath2"
  have len: "length a = length b" and k: "k < length a"
    and one: "(index (parseSegment (a ! k)) = None) \<noteq> (index (parseSegment (b ! k)) = None)"
    using assms by (simp_all add: a_def b_def)
  have nd: "\<not> indicesDiffer (parseSegment (a ! k)) (parseSegment (b ! k))"
    using one by (auto simp: indicesDiffer_def)
  let ?segs = "map2 (\<lambda>p q. if indicesDiffer p q then wildcardSegment p else literalSegment p)
                 (map parseSegment a) (map parseSegment b)"
  have segs: "length ?segs = length a" "?segs ! k = literalSegment (parseSegment (a ! k))"
    using len k nd by simp_all
  show ?thesis
  proof (cases "compareXPaths xpath1 xpath2")
    case None
    then show ?thesis
      unfolding compareXPaths_char a_def[symmetric] b_def[symmetric] Let_def
      using len by (auto simp: filter_empty_conv split: if_splits)
  next
    case (Some r)
    then have r: "pattern r = ''/'' @ join ''/'' ?segs"
      "variableIndices r
        = filter (\<lambda>j. indicesDiffer (map parseSegment a ! j) (map parseSegment b ! j))
            [0..<length (map parseSegment a)]"
      unfolding compareXPaths_char a_def[symmetric] b_def[symmetric] Let_def
      by (auto split: if_splits)
    have "k \<notin> set (variableIndices r)"
      unfolding r(2) using nd k len by simp
    with r(1) segs Some show ?thesis
      unfolding a_def[symmetric] by auto
  qed
qed

theorem compareXPaths_one_null_index_witness:
  "compareXPaths ''/html/body/ul[2]/li[1]'' ''/html/body/ul/li[3]''
     = Some \<lparr>pattern = ''/html/body/ul[2]/li[*]'', variableIndices = [3]\<rparr>
   \<and> 2 \<notin> set (variableIndices \<lparr>pattern = ''/html/body/ul[2]/li[*]'', variableIndices = [3]\<rparr>)"
proof -
  have v: "compareXPaths ''/html/body/ul[2]/li[1]'' ''/html/body/ul/li[3]''
     = Some \<lparr>pattern = ''/html/body/ul[2]/li[*]'', variableIndices = [3]\<rparr>"
    by (simp add: compareXPaths_def string_eval)
  have "case compareXPaths ''/html/body/ul[2]/li[1]'' ''/html/body/ul/li[3]'' of
          None \<Rightarrow> True | Some r \<Rightarrow> 2 \<notin> set (variableIndices r)"
    using compareXPaths_one_null_index
      [of "''/html/body/ul[2]/li[1]''" "''/html/body/ul/li[3]''" 2]
    by (simp add: v string_eval)
  with v show ?thesis by simp
qed

section \<open>The extension of a pattern by a new path\<close>

lemma detectLoop_prefix:
  "detectLoop i a b ev rs rv f = Some (rs', rv', f') \<Longrightarrow> \<exists>ys. rv' = rv @ ys"
  by (induction i a b ev rs rv f rule: detectLoop.induct) (auto simp: Let_def split: if_splits)



section \<open>What parseSegment accepts\<close>

lemma matchSegment_forms:
  assumes "matchSegment s = Some g"
  shows "bareTagForm s \<or> indexedTagForm s"
proof -
  define t where "t = takeWhile isTagChar s"
  define r where "r = dropWhile isTagChar s"
  have s: "s = t @ r" by (simp add: t_def r_def)
  have tt: "list_all isTagChar t" unfolding t_def list_all_iff by (auto dest: set_takeWhileD)
  from assms have t: "t \<noteq> []"
    by (auto simp: matchSegment_def Let_def t_def split: if_splits)
  show ?thesis
  proof (cases "r = []")
    case True
    with s t tt show ?thesis by (simp add: bareTagForm_def)
  next
    case False
    with assms t have br: "hd r = CHR ''[''" "tl r \<noteq> []" "last (tl r) = CHR '']''"
      "butlast (tl r) \<noteq> []" "list_all isDigit (butlast (tl r))"
      by (auto simp: matchSegment_def Let_def t_def[symmetric] r_def[symmetric] split: if_splits)
    from br(2,4) have "3 \<le> length r" by (cases r; cases "tl r"; cases "tl (tl r)") auto
    moreover have "last r = last (tl r)" using br(2) by (cases r) auto
    ultimately have "bracketedIndex r" using br by (simp add: bracketedIndex_def)
    moreover have "0 < length t" "0 < length r" using t False by auto
    then have "length t \<in> set [1..<length s]" unfolding s by (simp add: Suc_le_eq)
    moreover have "take (length t) s = t" "drop (length t) s = r" using s by auto
    ultimately have "indexedTagForm s" unfolding indexedTagForm_def list_ex_iff using tt by metis
    then show ?thesis ..
  qed
qed

lemma matchIdRef_form:
  assumes "matchIdRef s = Some g"
  shows "idRefForm s"
proof -
  define rest where "rest = drop (length idPrefix) s"
  define q where "q = dropWhile (\<lambda>c. c \<noteq> CHR 0x22) rest"
  from assms have p: "take (length idPrefix) s = idPrefix"
    by (auto simp: matchIdRef_def split: if_splits)
  from assms p have g: "g = takeWhile (\<lambda>c. c \<noteq> CHR 0x22) rest" "g \<noteq> []"
    "q = [CHR 0x22, CHR '']'']"
    by (auto simp: matchIdRef_def Let_def rest_def q_def split: if_splits)
  have s: "s = idPrefix @ rest" using p unfolding rest_def by (metis append_take_drop_id)
  have r: "rest = g @ q" by (simp add: g(1) q_def)
  have nq: "CHR 0x22 \<notin> set g" unfolding g(1) by (auto dest: set_takeWhileD)
  have "length g > 0" using g(2) by simp
  then show ?thesis unfolding idRefForm_def using nq
    by (simp add: s r g(3) Suc_le_eq)
qed

text \<open>
  Claim C8 as stated does not hold: \<^verbatim>\<open>parseSegment\<close> has no failure. On the input
  \<^verbatim>\<open>li[*]\<close>, which is neither a bare tag, nor \<^verbatim>\<open>tag[n]\<close>, nor an id reference,
  it returns a segment.
\<close>

theorem parseSegment_returns_counterexample:
  "\<not> (bareTagForm ''li[*]'' \<or> indexedTagForm ''li[*]'' \<or> idRefForm ''li[*]'')
   \<and> parseSegment ''li[*]'' = \<lparr>tag = ''li[*]'', index = None, idref = None\<rparr>"
  by (simp add: bareTagForm_def indexedTagForm_def bracketedIndex_def idRefForm_def string_eval)

text \<open>
  Claim C8, amended. For every input that is not a bare tag, not of the form
  \<^verbatim>\<open>tag[n]\<close> and not an id reference, \<^verbatim>\<open>parseSegment\<close> returns the segment whose
  tag is the whole input, with no index and no id.
\<close>

theorem parseSegment_fallback:
  assumes "\<not> bareTagForm s" and "\<not> indexedTagForm s" and "\<not> idRefForm s"
  shows "parseSegment s = \<lparr>tag = s, index = None, idref = None\<rparr>"
proof -
  have "matchSegment s = None"
    using assms(1,2) matchSegment_forms by (cases "matchSegment s") auto
  moreover have "matchIdRef s = None"
    using assms(3) matchIdRef_form by (cases "matchIdRef s") auto
  ultimately show ?thesis by (simp add: parseSegment_def)
qed

theorem parseSegment_fallback_witness:
  "\<not> bareTagForm ''td[x]'' \<and> \<not> indexedTagForm ''td[x]'' \<and> \<not> idRefForm ''td[x]''
   \<and> parseSegment ''td[x]'' = \<lparr>tag = ''td[x]'', index = None, idref = None\<rparr>"
proof -
  have a: "\<not> bareTagForm ''td[x]''" by (simp add: bareTagForm_def isTagChar_def)
  have b: "\<not> indexedTagForm ''td[x]''"
    by (simp add: indexedTagForm_def bracketedIndex_def isTagChar_def isDigit_def upt_conv_Cons)
  have c: "\<not> idRefForm ''td[x]''" by (simp add: idRefForm_def idPrefix_def)
  from a b c parseSegment_fallback [OF a b c] show ?thesis by simp
qed

section \<open>The selection state\<close>



lemma assignMatched_pat [simp]:
  "detectedPattern (stateOf (assignMatched d s x)) = detectedPattern s"
  by (simp add: assignMatched_def split: option.splits)

lemma assignMatched_sel [simp]:
  "selectedElements (stateOf (assignMatched d s x)) = selectedElements s"
  by (simp add: assignMatched_def split: option.splits)

lemma compareLatest_sel [simp]:
  "selectedElements (stateOf (compareLatest d s x v)) = selectedElements s"
  by (simp add: compareLatest_def Let_def split: option.splits)

lemma updatePattern_sel: "selectedElements (stateOf (updatePattern d s)) = selectedElements s"
  by (simp add: updatePattern_def Let_def split: option.splits detectedPattern.splits)

lemma detect2DPattern_prefix:
  "detect2DPattern x v y = Some r \<Longrightarrow> \<exists>ys. variableIndices r = v @ ys"
  by (auto simp: detect2DPattern_def Let_def split: if_splits option.splits
      dest!: detectLoop_prefix)

subsection \<open>The collection does not raise in a document with a body\<close>

lemma those_map_Some:
  assumes "\<And>x. x \<in> set xs \<Longrightarrow> \<exists>r. f x = Some r"
  shows "\<exists>rs. those (map f xs) = Some rs"
  using assms by (induction xs) (auto split: option.splits)

lemma childNodes_not_Null: "c \<in> set (childNodes d n) \<Longrightarrow> c \<noteq> Null"
  by (cases n) (auto split: option.splits)

lemma collect_total:
  assumes "body d \<noteq> Null"
  shows "n \<noteq> Null \<Longrightarrow> \<exists>r. collectElementsWithWildcard d segs n = Some r"
proof (induction segs arbitrary: n)
  case Nil
  then show ?case by simp
next
  case (Cons seg rest)
  let ?parsed = "parseSegment (stringReplace ''[*]'' ''[1]'' seg)"
  let ?same = "filter (hasTag d (tag ?parsed)) (childNodes d n)"
  have kids: "\<And>c. c \<in> set ?same \<Longrightarrow> \<exists>r. collectElementsWithWildcard d rest c = Some r"
    using Cons.IH childNodes_not_Null by auto
  have wild: "\<exists>rs. those (map (collectElementsWithWildcard d rest) ?same) = Some rs"
    by (rule those_map_Some) (use kids in auto)
  have fixed: "targetIndexOf ?parsed \<le> length ?same \<Longrightarrow>
      \<exists>r. collectElementsWithWildcard d rest (?same ! (targetIndexOf ?parsed - 1)) = Some r"
  proof -
    assume le: "targetIndexOf ?parsed \<le> length ?same"
    have "0 < targetIndexOf ?parsed" by (simp add: targetIndexOf_def split: option.splits)
    with le have "?same ! (targetIndexOf ?parsed - 1) \<in> set ?same" by (intro nth_mem) arith
    then show ?thesis using kids by blast
  qed
  show ?case
    using Cons.prems assms Cons.IH[of "Node InDocument []"] Cons.IH[of "body d"] wild fixed
    by (auto simp: Let_def)
qed

lemma findMatchingElements_total:
  "body d \<noteq> Null \<Longrightarrow> \<exists>r. findMatchingElements d p = Some r"
  using collect_total[of d Document]
  by (auto simp: findMatchingElements_def Let_def split: option.splits)

subsection \<open>A tag that differs\<close>

lemma detectLoop_mismatch:
  "length a = length b \<Longrightarrow> k < length a
   \<Longrightarrow> tag (parseSegment (a ! k)) \<noteq> tag (parseSegment (b ! k))
   \<Longrightarrow> detectLoop i a b ev rs rv f = None"
proof (induction a b arbitrary: k i rs rv f rule: list_induct2)
  case Nil
  then show ?case by simp
next
  case (Cons x xs y ys)
  show ?case
  proof (cases k)
    case 0
    with Cons.prems show ?thesis by (simp add: Let_def)
  next
    case (Suc j)
    with Cons.prems have "j < length xs"
      "tag (parseSegment (xs ! j)) \<noteq> tag (parseSegment (ys ! j))"
      by auto
    then have "\<And>i rs rv f. detectLoop i xs ys ev rs rv f = None" using Cons.IH by blast
    then show ?thesis by (simp add: Let_def)
  qed
qed

lemma detect2DPattern_mismatch:
  assumes "k < length (parseXPathToSegments x)" "k < length (parseXPathToSegments y)"
    "tag (parseSegment (parseXPathToSegments x ! k))
      \<noteq> tag (parseSegment (parseXPathToSegments y ! k))"
  shows "detect2DPattern x v y = None"
  using assms by (auto simp: detect2DPattern_def Let_def detectLoop_mismatch)

text \<open>
  Claim C7. With three or more elements selected and a generalized pattern held,
  when the tag of the newest path differs from the tag of the pattern's segment at
  some position, \<^verbatim>\<open>detect2DPattern\<close> returns an invalid result, and after
  \<^verbatim>\<open>updatePattern\<close> the held pattern and the selection are as they were. In a
  document with a body \<^verbatim>\<open>updatePattern\<close> returns normally: it only assigns the
  matched elements, evaluated from the pattern it keeps.
\<close>

theorem updatePattern_tag_mismatch_keeps_pattern:
  assumes "3 \<le> length (selectedElements s)"
    and "detectedPattern s = Some (Generalized ty xpath varIndices)"
    and "k < length (parseXPathToSegments xpath)"
    and "k < length (parseXPathToSegments (latestXPath d s))"
    and "tag (parseSegment (parseXPathToSegments xpath ! k))
       \<noteq> tag (parseSegment (parseXPathToSegments (latestXPath d s) ! k))"
  shows "detect2DPattern xpath varIndices (latestXPath d s) = None
       \<and> detectedPattern (stateOf (updatePattern d s)) = Some (Generalized ty xpath varIndices)
       \<and> selectedElements (stateOf (updatePattern d s)) = selectedElements s
       \<and> (body d \<noteq> Null
            \<longrightarrow> (\<exists>elements. updatePattern d s = Normal (s\<lparr>matchedElements := elements\<rparr>)))"
proof -
  have none: "detect2DPattern xpath varIndices (latestXPath d s) = None"
    using assms(3-5) by (rule detect2DPattern_mismatch)
  have sel: "selectedElements s \<noteq> []" using assms(1) by auto
  have sel2: "length (selectedElements s) \<noteq> 0" "length (selectedElements s) \<noteq> 1"
    "length (selectedElements s) \<noteq> 2" using assms(1) by auto
  have none': "detect2DPattern xpath varIndices
      (generateAbsoluteXPath d
         (fst (selectedElements s ! (length (selectedElements s) - Suc 0)))) = None"
    using none sel by (simp add: latestXPath_def last_conv_nth)
  have cl: "compareLatest d s xpath varIndices = assignMatched d s xpath"
    using sel none' by (simp add: compareLatest_def Let_def)
  have up: "updatePattern d s = assignMatched d s xpath"
    unfolding updatePattern_def Let_def using sel2 assms(2) cl by simp
  have normal: "\<exists>elements. updatePattern d s = Normal (s\<lparr>matchedElements := elements\<rparr>)"
    if b: "body d \<noteq> Null"
  proof -
    obtain elements where "findMatchingElements d (Some xpath) = Some elements"
      using findMatchingElements_total[OF b] by blast
    then have "updatePattern d s = Normal (s\<lparr>matchedElements := elements\<rparr>)"
      unfolding up by (simp add: assignMatched_def)
    then show ?thesis by blast
  qed
  show ?thesis using none normal assms(2) unfolding up by simp
qed

theorem updatePattern_tag_mismatch_keeps_pattern_witness:
  "detect2DPattern ''/html/body/ul[1]/li[*]'' [3] ''/html/body/ol[1]/li[1]'' = None
   \<and> detectedPattern (stateOf (updatePattern exampleDocument thirdClickState))
       = Some (Generalized OneD ''/html/body/ul[1]/li[*]'' [3])
   \<and> (\<exists>elements. updatePattern exampleDocument thirdClickState
                    = Normal (thirdClickState\<lparr>matchedElements := elements\<rparr>))"
proof -
  have h1: "3 \<le> length (selectedElements thirdClickState)" by code_simp
  have h2: "detectedPattern thirdClickState
              = Some (Generalized OneD ''/html/body/ul[1]/li[*]'' [3])" by code_simp
  have h3: "body exampleDocument \<noteq> Null" by code_simp
  have l: "latestXPath exampleDocument thirdClickState = ''/html/body/ol[1]/li[1]''"
    by code_simp
  have h4: "2 < length (parseXPathToSegments ''/html/body/ul[1]/li[*]'')" by code_simp
  have h5: "2 < length (parseXPathToSegments (latestXPath exampleDocument thirdClickState))"
    unfolding l by code_simp
  have h6: "tag (parseSegment (parseXPathToSegments ''/html/body/ul[1]/li[*]'' ! 2))
      \<noteq> tag (parseSegment
               (parseXPathToSegments (latestXPath exampleDocument thirdClickState) ! 2))"
    unfolding l by code_simp
  from updatePattern_tag_mismatch_keeps_pattern [OF h1 h2 h4 h5 h6] l h3 show ?thesis by simp
qed

subsection \<open>A node without a parent\<close>




subsection \<open>Deselection\<close>

lemma updatePattern_0:
  "selectedElements s = [] \<Longrightarrow> detectedPattern (stateOf (updatePattern d s)) = None"
  by (simp add: updatePattern_def)

lemma updatePattern_1:
  "selectedElements s = [a]
   \<Longrightarrow> detectedPattern (stateOf (updatePattern d s)) = Some (Single (snd a))"
  by (simp add: updatePattern_def)

lemma updatePattern_2:
  "selectedElements s = [a, b]
   \<Longrightarrow> detectedPattern (stateOf (updatePattern d s)) = Some (pairPattern d (fst a) (fst b))"
  by (simp add: updatePattern_def pairPattern_def Let_def split: option.splits)

lemma compareLatest_keeps:
  assumes "detectedPattern s = Some (Generalized ty x v)"
  shows "\<exists>ty' x' v'. detectedPattern (stateOf (compareLatest d s x v))
                       = Some (Generalized ty' x' v')
           \<and> (\<exists>ys. v' = v @ ys)"
  using assms
  by (auto simp: compareLatest_def Let_def split: option.splits dest: detect2DPattern_prefix)

lemma updatePattern_3:
  assumes "3 \<le> length (selectedElements s)" "detectedPattern s = Some (Generalized ty x v)"
  shows "\<exists>ty' x' v'. detectedPattern (stateOf (updatePattern d s)) = Some (Generalized ty' x' v')
           \<and> (\<exists>ys. v' = v @ ys)"
proof -
  have "length (selectedElements s) \<noteq> 0" "length (selectedElements s) \<noteq> 1"
    "length (selectedElements s) \<noteq> 2" using assms(1) by auto
  then have "updatePattern d s = compareLatest d s x v"
    unfolding updatePattern_def Let_def using assms(2) by simp
  then show ?thesis using compareLatest_keeps[OF assms(2)] by simp
qed

lemma fromScratch_le2:
  assumes "length sel \<le> 2" "distinct (map fst sel)"
    "\<forall>e\<in>set sel. snd e = generateXPath d (fst e)"
  shows "fromScratch d (map fst sel) =
     (case sel of [] \<Rightarrow> None | [a] \<Rightarrow> Some (Single (snd a))
      | a # b # r \<Rightarrow> Some (pairPattern d (fst a) (fst b)))"
proof (cases sel)
  case Nil
  then show ?thesis by (simp add: fromScratch_def initialState_def)
next
  case (Cons a r)
  show ?thesis
  proof (cases r)
    case Nil
    with Cons assms show ?thesis
      by (simp add: fromScratch_def initialState_def handleElementClick_def updatePattern_def)
  next
    case (Cons b r')
    with \<open>sel = a # r\<close> assms have r': "r' = []" and ne: "fst a \<noteq> fst b" by auto
    let ?s1 = "stateOf (handleElementClick d (fst a) initialState)"
    have s1: "?s1 = initialState\<lparr>selectedElements := [(fst a, generateXPath d (fst a))],
                                 detectedPattern := Some (Single (generateXPath d (fst a))),
                                 matchedElements := [fst a]\<rparr>"
      by (simp add: handleElementClick_def initialState_def updatePattern_def)
    have "detectedPattern (stateOf (handleElementClick d (fst b) ?s1))
        = Some (pairPattern d (fst a) (fst b))"
      unfolding s1 using ne
      by (subst handleElementClick_def) (simp add: initialState_def updatePattern_2)
    then show ?thesis using \<open>sel = a # r\<close> Cons r' by (simp add: fromScratch_def)
  qed
qed

text \<open>
  Claim C6 as stated does not hold. After four clicks (one item of the first list,
  three of the second) the pattern is variable at the list position and at the
  item position. Deselecting the item of the first list leaves that pattern in
  place, while the pattern built from scratch over the three remaining items is
  variable at the item position only.
\<close>

theorem deselect_not_from_scratch_counterexample:
  "detectedPattern
     (stateOf (handleElementDoubleClick exampleDocument itemA
                 (clicks exampleDocument [itemA, itemB, itemC, itemD] initialState)))
     = Some (Generalized TwoD ''/html/body/ul[*]/li[*]'' [2, 3])
   \<and> map fst (selectedElements
        (stateOf (handleElementDoubleClick exampleDocument itemA
                    (clicks exampleDocument [itemA, itemB, itemC, itemD] initialState))))
     = [itemB, itemC, itemD]
   \<and> fromScratch exampleDocument [itemB, itemC, itemD]
     = Some (Generalized OneD ''/html/body/ul[2]/li[*]'' [3])"
  by code_simp

text \<open>
  Claim C6, amended. In selection mode, with a selection of distinct elements that
  carry the paths computed for them, a double click on an element that is not
  selected changes nothing; a double click on a selected element removes it and
  runs \<^verbatim>\<open>updatePattern\<close>. When at most two elements remain, the resulting pattern
  is the pattern built from scratch over the remaining elements. When three or more
  remain and a generalized pattern is held, the pattern is not rebuilt: the result
  is a generalized pattern that keeps every variable position of the held one.
\<close>

theorem handleElementDoubleClick_pattern:
  assumes "isSelectionModeActive s"
    and "distinct (map fst (selectedElements s))"
    and "\<forall>e\<in>set (selectedElements s). snd e = generateXPath d (fst e)"
  shows "case firstIndex (\<lambda>sel. fst sel = element) (selectedElements s) of
           None \<Rightarrow> handleElementDoubleClick d element s = Normal s
         | Some i \<Rightarrow>
             (let remaining = take i (selectedElements s) @ drop (Suc i) (selectedElements s);
                  s' = stateOf (handleElementDoubleClick d element s)
              in selectedElements s' = remaining
                 \<and> (length remaining \<le> 2
                      \<longrightarrow> detectedPattern s' = fromScratch d (map fst remaining))
                 \<and> (3 \<le> length remaining \<longrightarrow>
                      (\<forall>ty xpath varIndices.
                         detectedPattern s = Some (Generalized ty xpath varIndices) \<longrightarrow>
                         (\<exists>ty' xpath' varIndices'.
                            detectedPattern s' = Some (Generalized ty' xpath' varIndices')
                            \<and> set varIndices \<subseteq> set varIndices'))))"
proof (cases "firstIndex (\<lambda>sel. fst sel = element) (selectedElements s)")
  case None
  then show ?thesis using assms(1) by (simp add: handleElementDoubleClick_def)
next
  case (Some i)
  define remaining
    where "remaining = take i (selectedElements s) @ drop (Suc i) (selectedElements s)"
  define s0 where "s0 = s\<lparr>selectedElements := remaining\<rparr>"
  have h: "handleElementDoubleClick d element s = updatePattern d s0"
    using assms(1) Some by (simp add: handleElementDoubleClick_def s0_def remaining_def)
  have sel0: "selectedElements s0 = remaining" and pat0: "detectedPattern s0 = detectedPattern s"
    by (simp_all add: s0_def)
  have sub: "set remaining \<subseteq> set (selectedElements s)"
    unfolding remaining_def by (auto dest: in_set_takeD in_set_dropD)
  have dist: "distinct (map fst remaining)"
  proof -
    have "map fst remaining
        = take i (map fst (selectedElements s)) @ drop (Suc i) (map fst (selectedElements s))"
      by (simp add: remaining_def take_map drop_map)
    moreover have "distinct (take i xs @ drop (Suc i) xs)" if "distinct xs" for xs :: "node list"
    proof -
      have "distinct (take i xs @ drop i xs)" using that by simp
      then have "set (take i xs) \<inter> set (drop i xs) = {}" by (simp only: distinct_append)
      moreover have "set (drop (Suc i) xs) \<subseteq> set (drop i xs)"
        by (rule set_drop_subset_set_drop) simp
      ultimately show ?thesis using that by auto
    qed
    ultimately show ?thesis using assms(2) by simp
  qed
  have gen: "\<forall>e\<in>set remaining. snd e = generateXPath d (fst e)" using assms(3) sub by blast
  have a: "selectedElements (stateOf (updatePattern d s0)) = remaining"
    by (simp add: updatePattern_sel sel0)
  have b: "detectedPattern (stateOf (updatePattern d s0)) = fromScratch d (map fst remaining)"
    if le: "length remaining \<le> 2"
  proof -
    consider "remaining = []" | x where "remaining = [x]" | x y where "remaining = [x, y]"
      using le by (cases remaining; cases "tl remaining"; cases "tl (tl remaining)") auto
    then show ?thesis
    proof cases
      case 1
      then show ?thesis using fromScratch_le2[OF le dist gen] by (simp add: updatePattern_0 sel0)
    next
      case 2
      then show ?thesis using fromScratch_le2[OF le dist gen] by (simp add: updatePattern_1 sel0)
    next
      case 3
      then show ?thesis using fromScratch_le2[OF le dist gen] by (simp add: updatePattern_2 sel0)
    qed
  qed
  have c: "\<exists>ty' x' v'. detectedPattern (stateOf (updatePattern d s0)) = Some (Generalized ty' x' v')
             \<and> set v \<subseteq> set v'"
    if "3 \<le> length remaining" "detectedPattern s = Some (Generalized ty x v)" for ty x v
    using updatePattern_3[of s0 ty x v d] that sel0 pat0 by auto
  show ?thesis
    apply (simp only: Some option.case Let_def h)
    apply (fold remaining_def)
    using a b c apply blast
    done
qed

theorem handleElementDoubleClick_pattern_witness:
  "selectedElements (stateOf (handleElementDoubleClick exampleDocument itemA threeItemsState))
     = drop 1 (selectedElements threeItemsState)
   \<and> detectedPattern (stateOf (handleElementDoubleClick exampleDocument itemA threeItemsState))
     = fromScratch exampleDocument [itemB, itemC]"
proof -
  have h1: "isSelectionModeActive threeItemsState" by code_simp
  have h2: "distinct (map fst (selectedElements threeItemsState))" by code_simp
  have h3: "\<forall>e\<in>set (selectedElements threeItemsState).
              snd e = generateXPath exampleDocument (fst e)"
    by code_simp
  have i: "firstIndex (\<lambda>sel. fst sel = itemA) (selectedElements threeItemsState) = Some 0"
    by code_simp
  have r: "map fst (drop (Suc 0) (selectedElements threeItemsState)) = [itemB, itemC]"
    by code_simp
  have l: "length (selectedElements threeItemsState) - Suc 0 \<le> 2" by code_simp
  from handleElementDoubleClick_pattern [OF h1 h2 h3, of itemA] l show ?thesis
    by (simp add: i Let_def r)
qed

section \<open>The collection of the matching elements\<close>












lemma isTagChar_not_bracket: "isTagChar c \<Longrightarrow> c \<noteq> CHR ''[''"
  by (auto simp: isTagChar_def)



lemma takeWhile_tag: "list_all isTagChar name \<Longrightarrow> \<not> isTagChar c \<Longrightarrow> takeWhile isTagChar (name @ c # r) = name"
  by (induction name) auto

lemma dropWhile_tag: "list_all isTagChar name \<Longrightarrow> \<not> isTagChar c \<Longrightarrow> dropWhile isTagChar (name @ c # r) = c # r"
  by (induction name) auto





section \<open>A pattern with a variable segment and a new path\<close>

text \<open>
  \<^verbatim>\<open>detect2DPattern\<close> parses the segments of the existing pattern with
  \<^verbatim>\<open>parseSegment\<close> and compares the tags before it looks at the existing variable
  indices. A segment \<^verbatim>\<open>name[*]\<close> is parsed to the tag \<^verbatim>\<open>name[*]\<close>, which no
  segment without a star has as its tag. So a pattern with a variable segment is
  never extended by a path that has a segment without a star at that position; the
  paths of \<^verbatim>\<open>generateAbsoluteXPath\<close> are such paths.
\<close>

lemma parseSegment_variable:
  assumes "bareTagForm name"
  shows "parseSegment (name @ ''[*]'') = \<lparr>tag = name @ ''[*]'', index = None, idref = None\<rparr>"
proof -
  have nb: "\<not> isTagChar CHR ''[''" by (simp add: isTagChar_def)
  have all: "list_all isTagChar name" and ne: "name \<noteq> []"
    using assms by (simp_all add: bareTagForm_def)
  have t: "takeWhile isTagChar (name @ CHR ''['' # ''*]'') = name"
    and r: "dropWhile isTagChar (name @ CHR ''['' # ''*]'') = CHR ''['' # ''*]''"
    using all nb by (simp_all add: takeWhile_tag dropWhile_tag)
  have m: "matchSegment (name @ ''[*]'') = None"
    using t r ne by (simp add: matchSegment_def Let_def isDigit_def)
  obtain c cs where n: "name = c # cs" "isTagChar c" using all ne by (cases name) auto
  then have "c \<noteq> CHR ''*''" by (auto simp: isTagChar_def)
  then have i: "matchIdRef (name @ ''[*]'') = None"
    by (simp add: matchIdRef_def idPrefix_def n(1))
  show ?thesis by (simp add: parseSegment_def m i)
qed

lemma parseSegment_tag_no_star:
  assumes "CHR ''*'' \<notin> set s"
  shows "CHR ''*'' \<notin> set (tag (parseSegment s))"
proof (cases "matchSegment s")
  case (Some g)
  then have "fst g = takeWhile isTagChar s"
    by (auto simp: matchSegment_def Let_def split: if_splits)
  moreover have "set (takeWhile isTagChar s) \<subseteq> set s" by (auto dest: set_takeWhileD)
  ultimately show ?thesis using assms Some by (cases g) (auto simp: parseSegment_def)
next
  case None
  show ?thesis
  proof (cases "matchIdRef s")
    case None': None
    with None assms show ?thesis by (simp add: parseSegment_def)
  next
    case (Some i)
    then have "take (length idPrefix) s = idPrefix"
      by (auto simp: matchIdRef_def split: if_splits)
    then have "CHR ''*'' \<in> set (take (length idPrefix) s)" by (simp add: idPrefix_def)
    then have "CHR ''*'' \<in> set s" by (rule in_set_takeD)
    with assms show ?thesis by simp
  qed
qed

lemma detect2DPattern_variable_segment:
  assumes "k < length (parseXPathToSegments existingPattern)"
    and "k < length (parseXPathToSegments newXPath)"
    and "parseXPathToSegments existingPattern ! k = name @ ''[*]''"
    and "bareTagForm name"
    and "CHR ''*'' \<notin> set (parseXPathToSegments newXPath ! k)"
  shows "detect2DPattern existingPattern existingVariableIndices newXPath = None"
proof -
  have "CHR ''*'' \<in> set (tag (parseSegment (parseXPathToSegments existingPattern ! k)))"
    unfolding assms(3) parseSegment_variable[OF assms(4)] by simp
  moreover have "CHR ''*'' \<notin> set (tag (parseSegment (parseXPathToSegments newXPath ! k)))"
    using assms(5) by (rule parseSegment_tag_no_star)
  ultimately have "tag (parseSegment (parseXPathToSegments existingPattern ! k))
      \<noteq> tag (parseSegment (parseXPathToSegments newXPath ! k))"
    by metis
  with assms(1,2) show ?thesis by (rule detect2DPattern_mismatch)
qed

lemma detect2DPattern_variable_segment_example:
  "detect2DPattern ''/html/body/table[1]/tr[1]/td[*]'' [4] ''/html/body/table[1]/tr[2]/td[1]''
     = None"
  by code_simp

section \<open>The grid of a two-dimensional pattern\<close>






















section \<open>From an element to its path and back\<close>

subsection \<open>Splitting and joining\<close>






subsection \<open>Numbers and characters\<close>











subsection \<open>The segments of a path\<close>









subsection \<open>Evaluation of the path\<close>









lemma rootOf_evaluate [simp]: "rootOf (d\<lparr>evaluate := f\<rparr>) b = rootOf d b"
  by (simp add: rootOf_def split: base.splits)

lemma childNodes_evaluate [simp]: "childNodes (d\<lparr>evaluate := f\<rparr>) n = childNodes d n"
  by (cases n) simp_all

lemma lowerTag_evaluate [simp]: "lowerTag (d\<lparr>evaluate := f\<rparr>) n = lowerTag d n"
  by (cases n) (simp_all add: lowerTag_def)

lemma stepNodes_evaluate [simp]: "stepNodes (d\<lparr>evaluate := f\<rparr>) = stepNodes d"
  by (intro ext) (simp add: stepNodes_def)

lemma locationPath_evaluate [simp]:
  "locationPath (d\<lparr>evaluate := f\<rparr>) steps ctx = locationPath d steps ctx"
  by (induction steps arbitrary: ctx) simp_all





end
